theory Spec2Isabelle
  imports Complex_Main "HOL-Library.Multiset" "HOL-Library.Word"
begin

section \<open>Data model\<close>

text \<open>
  The embedding follows \<^verbatim>\<open>data-processing/generate_images.py\<close> and
  \<^verbatim>\<open>utils/data.py\<close>. Python floats (and the entries of float arrays) are
  modelled as real numbers: rounding, infinities and NaN of IEEE arithmetic are outside
  the model, except for the result of a division by a zero scale, which numpy returns as
  a non-finite value without raising and which is kept apart as \<open>NonFinite\<close>.
  Every raise of the source is a value \<open>Inl e\<close> of the result type.
\<close>

datatype error = ValueError | IndexError | KeyError | OSError | UsageError

text \<open>
  One row of the \<open>N \<times> 4\<close> array an event's \<^verbatim>\<open>xyzs\<close> call returns: column 0 is x,
  column 1 is y, column 2 is z and column 3 is the charge. The charge type is a parameter
  because normalisation may leave a non-finite value there.
\<close>

datatype 'c point = Point (xc: real) (yc: real) (zc: real) (charge: 'c)

text \<open>A labelled event is the two-element list \<^verbatim>\<open>[xyzs, label]\<close> of the source.\<close>

type_synonym 'c event = "'c point list \<times> int"

datatype npfloat = Finite real | NonFinite

text \<open>
  What a Python function called by \<^verbatim>\<open>np.vectorize\<close> returns: \<^verbatim>\<open>_l\<close> returns the
  Python int \<^verbatim>\<open>0\<close> in its first branch and a float in its second.
\<close>

datatype pynum = PyInt int | PyFloat real

fun map_err :: "('a \<Rightarrow> error + 'b) \<Rightarrow> 'a list \<Rightarrow> error + 'b list" where
  "map_err f [] = Inr []"
| "map_err f (x # xs) =
     (case f x of
        Inl e \<Rightarrow> Inl e
      | Inr y \<Rightarrow> (case map_err f xs of Inl e \<Rightarrow> Inl e | Inr ys \<Rightarrow> Inr (y # ys)))"

section \<open>Charge transform\<close>

text \<open>
  \<^verbatim>\<open>def _l(a): return 0 if a == 0 else math.log10(a)\<close>.
  \<^verbatim>\<open>math.log10\<close> raises ValueError on a negative argument.
\<close>

definition py_l :: "real \<Rightarrow> error + pynum" where
  "py_l a =
     (if a = 0 then Inr (PyInt 0)
      else if a < 0 then Inl ValueError
      else Inr (PyFloat (log 10 a)))"

text \<open>
  \<^verbatim>\<open>np.vectorize(f)\<close> called without \<^verbatim>\<open>otypes\<close>: numpy refuses an input of size 0
  with ValueError, calls \<open>f\<close> on the first element to fix the data type of the output, then
  maps \<open>f\<close> over the input and converts the results to that type. A Python int as first
  result gives an integer output array, to which every float result is truncated
  (towards zero).
\<close>

definition to_float :: "pynum \<Rightarrow> real" where
  "to_float v = (case v of PyInt i \<Rightarrow> of_int i | PyFloat r \<Rightarrow> r)"

definition to_int64 :: "pynum \<Rightarrow> int" where
  "to_int64 v = (case v of PyInt i \<Rightarrow> i | PyFloat r \<Rightarrow> (if 0 \<le> r then \<lfloor>r\<rfloor> else \<lceil>r\<rceil>))"

definition np_vectorize :: "(real \<Rightarrow> error + pynum) \<Rightarrow> real list \<Rightarrow> error + real list" where
  "np_vectorize f xs =
     (case xs of
        [] \<Rightarrow> Inl ValueError
      | x # _ \<Rightarrow>
          (case f x of
             Inl e \<Rightarrow> Inl e
           | Inr probe \<Rightarrow>
               (case map_err f xs of
                  Inl e \<Rightarrow> Inl e
                | Inr outs \<Rightarrow>
                    Inr (case probe of
                           PyInt _ \<Rightarrow> map (\<lambda>v. of_int (to_int64 v)) outs
                         | PyFloat _ \<Rightarrow> map to_float outs))))"

text \<open>\<^verbatim>\<open>event[0][:, 3] = ...\<close>: the charge column is overwritten, the rest is kept.\<close>

definition set_charges :: "'a point list \<Rightarrow> 'c list \<Rightarrow> 'c point list" where
  "set_charges ps cs = map2 (\<lambda>p c. Point (xc p) (yc p) (zc p) c) ps cs"

text \<open>
  The body of \<^verbatim>\<open>for event in data: event[0][:, 3] = log(event[0][:, 3])\<close> with
  \<^verbatim>\<open>log = np.vectorize(_l)\<close>, the same three lines in all three modes.
\<close>

definition log_event :: "real event \<Rightarrow> error + real event" where
  "log_event ev =
     (case np_vectorize py_l (map charge (fst ev)) of
        Inl e \<Rightarrow> Inl e
      | Inr cs \<Rightarrow> Inr (set_charges (fst ev) cs, snd ev))"

definition log_data :: "real event list \<Rightarrow> error + real event list" where
  "log_data data = map_err log_event data"

section \<open>Ranking utility of the loader module\<close>

definition CLASS_NAMES :: "string list" where
  "CLASS_NAMES = [''proton'', ''carbon'', ''junk'']"

text \<open>\<^verbatim>\<open>xs[:top]\<close>: a negative bound counts from the end of the list.\<close>

definition py_slice_to :: "'a list \<Rightarrow> int \<Rightarrow> 'a list" where
  "py_slice_to xs stop =
     (if stop < 0 then take (length xs - nat (- stop)) xs else take (nat stop) xs)"

text \<open>
  \<^verbatim>\<open>decoded.sort(key=lambda o: o[1], reverse=True)\<close>: the sort is stable, and with
  \<^verbatim>\<open>reverse=True\<close> the list is reversed, sorted and reversed again, so that equal keys
  keep their order.
\<close>

definition sort_reverse :: "(string \<times> real) list \<Rightarrow> (string \<times> real) list" where
  "sort_reverse xs = rev (sort_key snd (rev xs))"

text \<open>
  \<^verbatim>\<open>[(CLASS_NAMES[i], p) for i, p in enumerate(preds)]\<close>: an index beyond the three
  names raises IndexError.
\<close>

definition name_pred :: "nat \<times> real \<Rightarrow> error + (string \<times> real)" where
  "name_pred ip =
     (if fst ip < length CLASS_NAMES then Inr (CLASS_NAMES ! fst ip, snd ip)
      else Inl IndexError)"

definition decode_predictions :: "real list \<Rightarrow> int \<Rightarrow> error + (string \<times> real) list" where
  "decode_predictions preds topn =
     (case map_err name_pred (enumerate 0 preds) of
        Inl e \<Rightarrow> Inl e
      | Inr decoded \<Rightarrow>
          (let decoded' = sort_reverse decoded;
               top' = min topn (int (length decoded'))
           in Inr (py_slice_to decoded' top')))"

section \<open>Shuffle and split\<close>

text \<open>
  \<^verbatim>\<open>random.shuffle(x)\<close> exchanges \<open>x[i]\<close>, for \<open>i\<close> from \<open>len(x) - 1\<close> down to 1, with
  \<open>x[j]\<close> for a random \<open>j\<close> below \<open>i + 1\<close>. The generator is the stream of its raw draws,
  consumed from the front; its state is returned with the list.
\<close>

type_synonym rng = "nat \<Rightarrow> nat"

definition randbelow :: "nat \<Rightarrow> rng \<Rightarrow> nat \<times> rng" where
  "randbelow n g = (g 0 mod n, (\<lambda>k. g (Suc k)))"

fun shuffle_loop :: "nat \<Rightarrow> 'a list \<Rightarrow> rng \<Rightarrow> 'a list \<times> rng" where
  "shuffle_loop 0 x g = (x, g)"
| "shuffle_loop (Suc i') x g =
     (let i = Suc i';
          (j, g') = randbelow (i + 1) g
      in shuffle_loop i' (x[i := x ! j, j := x ! i]) g')"

definition shuffle :: "'a list \<Rightarrow> rng \<Rightarrow> 'a list \<times> rng" where
  "shuffle x g = shuffle_loop (length x - 1) x g"

text \<open>
  \<^verbatim>\<open>partition = int(len(data) * 0.8)\<close>, \<^verbatim>\<open>train = data[:partition]\<close>,
  \<^verbatim>\<open>test = data[partition:]\<close>. The product is taken in the reals; the double product
  truncates to the same integer for every length below \<open>10\<^sup>1\<^sup>5\<close>.
\<close>

definition partition_of :: "nat \<Rightarrow> nat" where
  "partition_of n = nat \<lfloor>real n * 0.8\<rfloor>"

definition split_data :: "'a list \<Rightarrow> 'a list \<times> 'a list" where
  "split_data data =
     (let partition = partition_of (length data)
      in (take partition data, drop partition data))"

text \<open>The real labelled mode shuffles twice before the split, the simulated mode once.\<close>

definition shuffle_split_real :: "'a list \<Rightarrow> rng \<Rightarrow> 'a list \<times> 'a list" where
  "shuffle_split_real data g =
     (let (data1, g1) = shuffle data g;
          (data2, g2) = shuffle data1 g1
      in split_data data2)"

definition shuffle_split_sim :: "'a list \<Rightarrow> rng \<Rightarrow> 'a list \<times> 'a list" where
  "shuffle_split_sim data g =
     (let (data1, g1) = shuffle data g
      in split_data data1)"

section \<open>Normalisation\<close>

text \<open>\<^verbatim>\<open>ndarray.max()\<close>: ValueError on an array of size 0.\<close>

fun ndarray_max :: "'a::linorder list \<Rightarrow> error + 'a" where
  "ndarray_max [] = Inl ValueError"
| "ndarray_max (x # xs) = Inr (fold max xs x)"

text \<open>
  \<^verbatim>\<open>max_charge = np.array(list(map(lambda x: x[0][:, 3].max(), train))).max()\<close>
\<close>

definition max_charge_of :: "real event list \<Rightarrow> error + real" where
  "max_charge_of train =
     (case map_err (\<lambda>x. ndarray_max (map charge (fst x))) train of
        Inl e \<Rightarrow> Inl e
      | Inr ms \<Rightarrow> ndarray_max ms)"

text \<open>
  \<^verbatim>\<open>point[3] / max_charge\<close> on numpy floats: a zero divisor gives a warning and a
  non-finite value, not an exception.
\<close>

definition np_true_divide :: "real \<Rightarrow> real \<Rightarrow> npfloat" where
  "np_true_divide c m = (if m = 0 then NonFinite else Finite (c / m))"

text \<open>\<^verbatim>\<open>for point in e[0]: point[3] = point[3] / max_charge\<close>\<close>

definition scale_event :: "real \<Rightarrow> real event \<Rightarrow> npfloat event" where
  "scale_event max_charge e =
     (map (\<lambda>point. Point (xc point) (yc point) (zc point)
                      (np_true_divide (charge point) max_charge)) (fst e),
      snd e)"

definition normalize ::
  "real event list \<Rightarrow> real event list \<Rightarrow> error + (real \<times> npfloat event list \<times> npfloat event list)" where
  "normalize train test =
     (case max_charge_of train of
        Inl e \<Rightarrow> Inl e
      | Inr max_charge \<Rightarrow>
          Inr (max_charge, map (scale_event max_charge) train, map (scale_event max_charge) test))"

section \<open>Projection rendering\<close>

text \<open>
  The projection argument is a Python value: the command line passes a string, and the
  simulated mode compares it with integers.
\<close>

datatype pyval = PStr string | PInt int

text \<open>
  What the plotting backend is asked to draw for one event: the arrays given to
  \<^verbatim>\<open>plt.scatter(x, z, s=0.6, c=c, cmap='Greys')\<close> and the axis limits set before.
  \<open>xlim = None\<close> stands for a horizontal axis left to the backend's default.
\<close>

record plot_call =
  scatter_x :: "real list"
  scatter_y :: "real list"
  scatter_c :: "npfloat list"
  xlim :: "(real \<times> real) option"
  ylim :: "real \<times> real"

type_synonym image = "8 word list list list"

text \<open>\<^verbatim>\<open>np.delete(data, 3, axis=2)\<close>: the fourth channel of every pixel is dropped.\<close>

definition delete_alpha :: "image \<Rightarrow> image" where
  "delete_alpha data = map (map (\<lambda>px. take 3 px @ drop 4 px)) data"

text \<open>The loop body of \<^verbatim>\<open>real_labeled\<close> (train and test) and \<^verbatim>\<open>real_unlabeled\<close>.\<close>

definition plot_real :: "pyval \<Rightarrow> npfloat point list \<Rightarrow> error + plot_call" where
  "plot_real projection e =
     (case (if projection = PStr ''zy'' then Inr (map zc e, map yc e, map charge e)
            else if projection = PStr ''xy'' then Inr (map xc e, map yc e, map charge e)
            else Inl ValueError) of
        Inl err \<Rightarrow> Inl err
      | Inr (x, z, c) \<Rightarrow>
          Inr \<lparr>scatter_x = x, scatter_y = z, scatter_c = c,
               xlim = (if projection = PStr ''zy'' then Some (0.0, 1250.0)
                       else if projection = PStr ''xy'' then Some (-275.0, 275.0)
                       else None),
               ylim = (-275.0, 275.0)\<rparr>)"

text \<open>The loop body of \<^verbatim>\<open>simulated\<close> (train and test).\<close>

definition plot_sim :: "pyval \<Rightarrow> npfloat point list \<Rightarrow> error + plot_call" where
  "plot_sim projection e =
     (case (if projection = PInt 1 then Inr (map zc e, map yc e, map charge e)
            else if projection = PInt 0 then Inr (map xc e, map yc e, map charge e)
            else Inl ValueError) of
        Inl err \<Rightarrow> Inl err
      | Inr (x, z, c) \<Rightarrow>
          Inr \<lparr>scatter_x = x, scatter_y = z, scatter_c = c,
               xlim = (if projection = PInt 1 then Some (0.0, 1250.0)
                       else if projection = PInt 0 then Some (-275.0, 275.0)
                       else None),
               ylim = (-275.0, 275.0)\<rparr>)"

definition render ::
  "(pyval \<Rightarrow> npfloat point list \<Rightarrow> error + plot_call) \<Rightarrow> (plot_call \<Rightarrow> image) \<Rightarrow>
   pyval \<Rightarrow> npfloat event \<Rightarrow> error + image" where
  "render plot backend projection event =
     (case plot projection (fst event) of
        Inl err \<Rightarrow> Inl err
      | Inr call \<Rightarrow> Inr (delete_alpha (backend call)))"

section \<open>Ingestion and the three pipelines\<close>

text \<open>
  Everything a run reads from outside: the event files and label tables under the data
  directory (by file name; \<open>None\<close> is a missing file), the random generator, the plotting
  backend (it returns the RGBA buffer of the drawn canvas), the noise routine of
  \<^verbatim>\<open>utils.data_discretization\<close> (an external collaborator, taken as it comes;
  \<open>add_noise w k\<close> is its \<open>k\<close>-th call), and the memory \<^verbatim>\<open>np.empty([1, 4])\<close> hands
  out uninitialised (\<open>np_empty w i\<close> is the row found there at the \<open>i\<close>-th allocation).
\<close>

record world =
  h5_files :: "string \<Rightarrow> (nat \<times> real point list) list option"
  csv_files :: "string \<Rightarrow> (nat \<times> string) list option"
  gen :: rng
  backend :: "plot_call \<Rightarrow> image"
  add_noise :: "nat \<Rightarrow> real point list \<Rightarrow> real point list"
  np_empty :: "nat \<Rightarrow> real point"

text \<open>The container written with \<^verbatim>\<open>h5.create_dataset\<close>, and read by the loader.\<close>

record h5file =
  h5_images :: "image list option"
  h5_train_features :: "image list option"
  h5_train_targets :: "nat list option"
  h5_test_features :: "image list option"
  h5_test_targets :: "nat list option"
  h5_max_charge :: "real list option"

definition RUNS :: "string list" where
  "RUNS = [''0130'', ''0210'']"

text \<open>\<^verbatim>\<open>labels.loc[(labels['label'] == l)]['evt_id'].values\<close>\<close>

definition label_indices :: "(nat \<times> string) list \<Rightarrow> string \<Rightarrow> nat list" where
  "label_indices labels l = map fst (filter (\<lambda>row. snd row = l) labels)"

text \<open>
  \<^verbatim>\<open>for evt_id in indices: event = events[str(evt_id)]; data.append([xyzs, label])\<close>.
  An event id of the label table that the event file does not hold is a KeyError.
\<close>

definition fetch_events ::
  "(nat \<times> real point list) list \<Rightarrow> nat list \<Rightarrow> int \<Rightarrow> error + real event list" where
  "fetch_events events indices label =
     map_err (\<lambda>evt_id. case map_of events evt_id of
                          None \<Rightarrow> Inl KeyError
                        | Some xyzs \<Rightarrow> Inr (xyzs, label)) indices"

definition labeled_run :: "world \<Rightarrow> string \<Rightarrow> error + real event list" where
  "labeled_run w run =
     (case h5_files w (''run_'' @ run @ ''.h5'') of
        None \<Rightarrow> Inl OSError
      | Some events \<Rightarrow>
     (case csv_files w (''run_'' @ run @ ''_labels.csv'') of
        None \<Rightarrow> Inl OSError
      | Some labels \<Rightarrow>
     (case fetch_events events (label_indices labels ''p'') 0 of
        Inl e \<Rightarrow> Inl e
      | Inr protons \<Rightarrow>
     (case fetch_events events (label_indices labels ''c'') 1 of
        Inl e \<Rightarrow> Inl e
      | Inr carbons \<Rightarrow>
     (case fetch_events events (label_indices labels ''j'') 2 of
        Inl e \<Rightarrow> Inl e
      | Inr junk \<Rightarrow> Inr (protons @ carbons @ junk))))))"

definition unlabeled_run :: "world \<Rightarrow> string \<Rightarrow> error + real event list" where
  "unlabeled_run w run =
     (case h5_files w (''run_'' @ run @ ''.h5'') of
        None \<Rightarrow> Inl OSError
      | Some events \<Rightarrow> Inr (map (\<lambda>event. (snd event, - 1)) events))"

text \<open>\<^verbatim>\<open>train_targets[i] = event[1]\<close> into an array of dtype uint8.\<close>

definition to_uint8 :: "int \<Rightarrow> nat" where
  "to_uint8 l = nat (l mod 256)"

text \<open>
  Lines 80 to 169 of \<^verbatim>\<open>real_labeled\<close> and lines 304 to 389 of \<^verbatim>\<open>simulated\<close>, which
  differ in the comparisons of the projection only (\<open>plot\<close>): normalise the two
  partitions, render train, render test, write the container.
\<close>

definition normalize_render_save ::
  "(pyval \<Rightarrow> npfloat point list \<Rightarrow> error + plot_call) \<Rightarrow> world \<Rightarrow> pyval \<Rightarrow>
   real event list \<times> real event list \<Rightarrow> error + h5file" where
  "normalize_render_save plot w projection parts =
     (case normalize (fst parts) (snd parts) of
        Inl e \<Rightarrow> Inl e
      | Inr (max_charge, train, test) \<Rightarrow>
     (case map_err (render plot (backend w) projection) train of
        Inl e \<Rightarrow> Inl e
      | Inr train_features \<Rightarrow>
     (case map_err (render plot (backend w) projection) test of
        Inl e \<Rightarrow> Inl e
      | Inr test_features \<Rightarrow>
          Inr \<lparr>h5_images = None,
               h5_train_features = Some train_features,
               h5_train_targets = Some (map (\<lambda>event. to_uint8 (snd event)) train),
               h5_test_features = Some test_features,
               h5_test_targets = Some (map (\<lambda>event. to_uint8 (snd event)) test),
               h5_max_charge = Some [max_charge]\<rparr>)))"

definition real_labeled :: "world \<Rightarrow> pyval \<Rightarrow> error + h5file" where
  "real_labeled w projection =
     (case map_err (labeled_run w) RUNS of
        Inl e \<Rightarrow> Inl e
      | Inr runs \<Rightarrow>
     (case log_data (concat runs) of
        Inl e \<Rightarrow> Inl e
      | Inr data \<Rightarrow>
          normalize_render_save plot_real w projection (shuffle_split_real data (gen w))))"

text \<open>
  \<^verbatim>\<open>real_unlabeled\<close> has no split: the scale is taken over the whole collection and
  there is no second partition to rescale.
\<close>

definition real_unlabeled :: "world \<Rightarrow> pyval \<Rightarrow> error + h5file" where
  "real_unlabeled w projection =
     (case map_err (unlabeled_run w) RUNS of
        Inl e \<Rightarrow> Inl e
      | Inr runs \<Rightarrow>
     (case log_data (concat runs) of
        Inl e \<Rightarrow> Inl e
      | Inr data0 \<Rightarrow>
     (let (data1, g1) = shuffle data0 (gen w);
          (data, g2) = shuffle data1 g1
      in
     (case normalize data [] of
        Inl e \<Rightarrow> Inl e
      | Inr (max_charge, data', _) \<Rightarrow>
     (case map_err (render plot_real (backend w) projection) data' of
        Inl e \<Rightarrow> Inl e
      | Inr images \<Rightarrow>
          Inr \<lparr>h5_images = Some images,
               h5_train_features = None, h5_train_targets = None,
               h5_test_features = None, h5_test_targets = None,
               h5_max_charge = Some [max_charge]\<rparr>)))))"

text \<open>
  The proton and carbon loops of \<^verbatim>\<open>simulated\<close>: every event of the file, through the
  noise routine when \<open>noise\<close> is set. \<open>k0\<close> counts the calls of the noise routine made
  before the loop.
\<close>

definition sim_events ::
  "world \<Rightarrow> bool \<Rightarrow> nat \<Rightarrow> (nat \<times> real point list) list \<Rightarrow> int \<Rightarrow> real event list" where
  "sim_events w noise k0 events label =
     map (\<lambda>(i, event). (if noise then add_noise w (k0 + i) (snd event) else snd event, label))
         (enumerate 0 events)"

text \<open>
  \<^verbatim>\<open>for i in range(num_events): xyzs = np.empty([1, 4]); if noise: xyzs = dd.add_noise(xyzs).astype('float32'); data.append([xyzs, 2])\<close>
\<close>

definition junk_events :: "world \<Rightarrow> bool \<Rightarrow> nat \<Rightarrow> int \<Rightarrow> real event list" where
  "junk_events w noise k0 num_events =
     map (\<lambda>i. (if noise then add_noise w (k0 + i) [np_empty w i] else [np_empty w i], 2))
         [0..<nat num_events]"

definition simulated_data ::
  "world \<Rightarrow> bool \<Rightarrow> int \<Rightarrow> (nat \<times> real point list) list \<Rightarrow> (nat \<times> real point list) list \<Rightarrow>
   real event list" where
  "simulated_data w noise num_events proton_events carbon_events =
     sim_events w noise 0 proton_events 0
     @ sim_events w noise (length proton_events) carbon_events 1
     @ junk_events w noise (length proton_events + length carbon_events) num_events"

definition simulated :: "world \<Rightarrow> pyval \<Rightarrow> bool \<Rightarrow> int \<Rightarrow> string \<Rightarrow> error + h5file" where
  "simulated w projection noise num_events prefix =
     (case h5_files w (prefix @ ''proton.h5'') of
        None \<Rightarrow> Inl OSError
      | Some proton_events \<Rightarrow>
     (case h5_files w (prefix @ ''carbon.h5'') of
        None \<Rightarrow> Inl OSError
      | Some carbon_events \<Rightarrow>
     (case log_data (simulated_data w noise num_events proton_events carbon_events) of
        Inl e \<Rightarrow> Inl e
      | Inr data \<Rightarrow>
          normalize_render_save plot_sim w projection (shuffle_split_sim data (gen w)))))"

text \<open>
  The command: \<^verbatim>\<open>click.Choice(['real', 'sim'])\<close> and \<^verbatim>\<open>click.Choice(['xy', 'zy'])\<close>
  reject any other value of the two arguments with a usage error before the body of
  \<^verbatim>\<open>main\<close> runs.
\<close>

definition main ::
  "world \<Rightarrow> string \<Rightarrow> string \<Rightarrow> string \<Rightarrow> bool \<Rightarrow> bool \<Rightarrow> int \<Rightarrow> error + h5file" where
  "main w type projection prefix labeled noise num_events =
     (if type \<in> set [''real'', ''sim''] \<and> projection \<in> set [''xy'', ''zy''] then
        (if type = ''real'' then
           (if labeled then real_labeled w (PStr projection)
            else real_unlabeled w (PStr projection))
         else simulated w (PStr projection) noise num_events prefix)
      else Inl UsageError)"

section \<open>Loader\<close>

datatype features = Images "image list" | Flattened "8 word list list"

datatype targets = Labels "nat list" | OneHot "int list list"

datatype loaded =
    OnlyImages "image list"
  | TrainTest "features \<times> targets" "features \<times> targets"
  | TrainTestMax "features \<times> targets" "features \<times> targets" real

text \<open>
  \<^verbatim>\<open>for i in range(targets.shape[0]): if targets[i] != 0: targets[i] = 1\<close>
\<close>

definition binary_loop :: "nat list \<Rightarrow> nat list" where
  "binary_loop targets =
     fold (\<lambda>i ts. if ts ! i \<noteq> 0 then ts[i := 1] else ts) [0..<length targets] targets"

text \<open>
  \<^verbatim>\<open>tensorflow.keras.utils.to_categorical(y, num_classes)\<close>: a zero \<open>num_classes\<close>
  counts as not given and is replaced by \<open>max(y) + 1\<close>; then row \<open>k\<close> of a zero matrix with
  \<open>num_classes\<close> columns gets a 1 in column \<open>y[k]\<close>, and a column out of range raises
  IndexError.
\<close>

definition to_categorical :: "nat list \<Rightarrow> nat \<Rightarrow> error + int list list" where
  "to_categorical y num_classes =
     (case (if num_classes = 0
            then (case ndarray_max y of Inl e \<Rightarrow> Inl e | Inr m \<Rightarrow> Inr (m + 1))
            else Inr num_classes) of
        Inl e \<Rightarrow> Inl e
      | Inr n \<Rightarrow>
          (if list_ex (\<lambda>i. n \<le> i) y then Inl IndexError
           else Inr (map (\<lambda>i. (replicate n 0)[i := 1]) y)))"

text \<open>
  \<^verbatim>\<open>np.reshape(features, (len(features), -1))\<close>: every image becomes one row. With
  no image at all the length of the rows cannot be inferred, which raises ValueError.
\<close>

definition reshape_rows :: "image list \<Rightarrow> error + 8 word list list" where
  "reshape_rows fs =
     (if fs = [] then Inl ValueError
      else Inr (map (\<lambda>img. concat (concat img)) fs))"

definition load_image_h5 :: "h5file \<Rightarrow> bool \<Rightarrow> bool \<Rightarrow> bool \<Rightarrow> bool \<Rightarrow> error + loaded" where
  "load_image_h5 h5 categorical flatten max_charge binary =
     (case h5_images h5 of
        Some images \<Rightarrow> Inr (OnlyImages images)
      | None \<Rightarrow>
     (case h5_train_features h5 of None \<Rightarrow> Inl KeyError | Some train_features \<Rightarrow>
     (case h5_train_targets h5 of None \<Rightarrow> Inl KeyError | Some train_targets0 \<Rightarrow>
     (case h5_test_features h5 of None \<Rightarrow> Inl KeyError | Some test_features \<Rightarrow>
     (case h5_test_targets h5 of None \<Rightarrow> Inl KeyError | Some test_targets0 \<Rightarrow>
     (case h5_max_charge h5 of None \<Rightarrow> Inl KeyError | Some mcs \<Rightarrow>
     (case mcs of [] \<Rightarrow> Inl IndexError | mc # _ \<Rightarrow>
     (let num_categories0 = length (remdups train_targets0);
          train_targets = (if binary then binary_loop train_targets0 else train_targets0);
          test_targets = (if binary then binary_loop test_targets0 else test_targets0);
          num_categories = (if binary then 2 else num_categories0)
      in
     (case (if categorical then
              (case to_categorical train_targets num_categories of
                 Inl e \<Rightarrow> Inl e
               | Inr train_hot \<Rightarrow>
                   (case to_categorical test_targets num_categories of
                      Inl e \<Rightarrow> Inl e
                    | Inr test_hot \<Rightarrow> Inr (OneHot train_hot, OneHot test_hot)))
            else Inr (Labels train_targets, Labels test_targets)) of
        Inl e \<Rightarrow> Inl e
      | Inr (train_y, test_y) \<Rightarrow>
     (case (if flatten then
              (case reshape_rows train_features of
                 Inl e \<Rightarrow> Inl e
               | Inr train_flat \<Rightarrow>
                   (case reshape_rows test_features of
                      Inl e \<Rightarrow> Inl e
                    | Inr test_flat \<Rightarrow> Inr (Flattened train_flat, Flattened test_flat)))
            else Inr (Images train_features, Images test_features)) of
        Inl e \<Rightarrow> Inl e
      | Inr (train_x, test_x) \<Rightarrow>
          (if max_charge then Inr (TrainTestMax (train_x, train_y) (test_x, test_y) mc)
           else Inr (TrainTest (train_x, train_y) (test_x, test_y)))))))))))))"

section \<open>Example inputs\<close>

text \<open>
  Concrete inputs at which the theorems below are instantiated. In
  \<open>empty_event_world\<close> every event file holds one event without points.
\<close>

definition empty_event_world :: world where
  "empty_event_world =
     \<lparr>h5_files = (\<lambda>name. Some [(7, [])]), csv_files = (\<lambda>name. Some [(7, ''p'')]),
      gen = (\<lambda>k. k), backend = (\<lambda>call. []), add_noise = (\<lambda>k xyzs. xyzs),
      np_empty = (\<lambda>i. Point 0 0 0 0)\<rparr>"

text \<open>
  \<open>sim_world\<close> holds two proton events and one carbon event of one point each, all
  with charge 10, and the row 1, 2, 3, 4 in every uninitialised allocation.
\<close>

definition sim_world :: world where
  "sim_world =
     \<lparr>h5_files = (\<lambda>name. if name = ''proton.h5''
                           then Some [(0, [Point 1 2 3 10]), (1, [Point 1 2 3 10])]
                          else if name = ''carbon.h5'' then Some [(0, [Point 4 5 6 10])]
                          else None),
      csv_files = (\<lambda>name. None),
      gen = (\<lambda>k. 0), backend = (\<lambda>call. []), add_noise = (\<lambda>k xyzs. xyzs),
      np_empty = (\<lambda>i. Point 1 2 3 4)\<rparr>"

text \<open>In \<open>negative_charge_world\<close> every event has a point of negative charge.\<close>

definition negative_charge_world :: world where
  "negative_charge_world =
     \<lparr>h5_files = (\<lambda>name. Some [(7, [Point 0 0 0 (- 1)])]),
      csv_files = (\<lambda>name. Some [(7, ''p'')]),
      gen = (\<lambda>k. k), backend = (\<lambda>call. []), add_noise = (\<lambda>k xyzs. xyzs),
      np_empty = (\<lambda>i. Point 0 0 0 0)\<rparr>"

text \<open>
  Two labelled containers (with one-pixel images): one with the three classes in its
  train targets, one whose train targets are 0 and 2 only.
\<close>

definition three_class_h5 :: h5file where
  "three_class_h5 =
     \<lparr>h5_images = None,
      h5_train_features = Some [[[[1, 2, 3]]], [[[4, 5, 6]]], [[[7, 8, 9]]], [[[1, 1, 1]]]],
      h5_train_targets = Some [0, 2, 1, 2],
      h5_test_features = Some [[[[0, 0, 0]]], [[[9, 9, 9]]]],
      h5_test_targets = Some [1, 0],
      h5_max_charge = Some [3.5]\<rparr>"

definition gap_h5 :: h5file where
  "gap_h5 =
     \<lparr>h5_images = None,
      h5_train_features = Some [[[[1, 2, 3]]], [[[4, 5, 6]]]],
      h5_train_targets = Some [0, 2],
      h5_test_features = Some [[[[0, 0, 0]]]],
      h5_test_targets = Some [0],
      h5_max_charge = Some [3.5]\<rparr>"

text \<open>A labelled container whose train partition is empty.\<close>

definition no_train_h5 :: h5file where
  "no_train_h5 =
     \<lparr>h5_images = None,
      h5_train_features = Some [],
      h5_train_targets = Some [],
      h5_test_features = Some [[[[0, 0, 0]]]],
      h5_test_targets = Some [0],
      h5_max_charge = Some [3.5]\<rparr>"

text \<open>
  \<open>labeled_world\<close> has three labelled events: a proton and a carbon event in run 0130
  and a junk event in run 0210.
\<close>

definition labeled_world :: world where
  "labeled_world =
     \<lparr>h5_files = (\<lambda>name. Some [(1, [Point 1 2 3 10, Point 2 3 4 1]), (2, [Point 4 5 6 10])]),
      csv_files = (\<lambda>name. if name = ''run_0130_labels.csv'' then Some [(1, ''p''), (2, ''c'')]
                           else Some [(2, ''j'')]),
      gen = (\<lambda>k. 0), backend = (\<lambda>call. [[[1, 2, 3, 255]]]), add_noise = (\<lambda>k xyzs. xyzs),
      np_empty = (\<lambda>i. Point 0 0 0 0)\<rparr>"

section \<open>Lists of results\<close>

lemma map_err_Inr_iff:
  "map_err f xs = Inr ys \<longleftrightarrow>
     length ys = length xs \<and> (\<forall>i<length xs. f (xs ! i) = Inr (ys ! i))"
proof (induction xs arbitrary: ys)
  case Nil
  then show ?case by auto
next
  case (Cons x xs)
  show ?case
  proof (cases ys)
    case Nil
    then show ?thesis by (auto split: sum.splits)
  next
    case (Cons y ys')
    then show ?thesis
      using Cons.IH [of ys']
      by (auto split: sum.splits simp: nth_Cons less_Suc_eq_0_disj split: nat.splits)
  qed
qed

section \<open>The charge transform\<close>

lemma py_l_zero: "py_l 0 = Inr (PyInt 0)"
  by (simp add: py_l_def)

lemma py_l_pos: "0 < a \<Longrightarrow> py_l a = Inr (PyFloat (log 10 a))"
  by (simp add: py_l_def)

lemma py_l_neg: "a < 0 \<Longrightarrow> py_l a = Inl ValueError"
  by (simp add: py_l_def)

lemma py_l_mono:
  assumes "0 < a" "a \<le> b"
  shows "\<exists>x y. py_l a = Inr (PyFloat x) \<and> py_l b = Inr (PyFloat y) \<and> x \<le> y"
  using assms by (simp add: py_l_def)

lemma map_err_py_l:
  assumes "\<forall>a\<in>set xs. 0 \<le> a"
  shows "map_err py_l xs = Inr (map (\<lambda>a. if a = 0 then PyInt 0 else PyFloat (log 10 a)) xs)"
proof -
  have "\<forall>i<length xs. 0 \<le> xs ! i"
    using assms by (simp add: all_set_conv_all_nth)
  then show ?thesis
    unfolding map_err_Inr_iff by (auto simp: py_l_def not_less [symmetric])
qed

text \<open>
  Where the first charge of an event is positive (and none is negative), the stored
  column is the element-wise transform.
\<close>

lemma np_vectorize_elementwise:
  assumes "0 < x" and "\<forall>a\<in>set xs. 0 \<le> a"
  shows "np_vectorize py_l (x # xs) = Inr (map (\<lambda>a. if a = 0 then 0 else log 10 a) (x # xs))"
proof -
  have "\<forall>a\<in>set (x # xs). 0 \<le> a"
    using assms by auto
  from map_err_py_l [OF this] assms(1) show ?thesis
    by (simp add: np_vectorize_def py_l_def to_float_def)
qed

lemma floor_log_50: "\<lfloor>log 10 (50::real)\<rfloor> = 1"
  by (simp add: floor_log_eq_powr_iff)

lemma log_50_neq_1: "log 10 (50::real) \<noteq> 1"
proof -
  have "log 10 (10::real) < log 10 50"
    by (subst log_less_cancel_iff) simp_all
  moreover have "log 10 (10::real) = 1"
    by simp
  ultimately show ?thesis
    by linarith
qed

text \<open>
  C4. The function \<^verbatim>\<open>_l\<close> maps 0 to 0 and a positive charge to its decimal logarithm,
  monotonically (\<open>py_l_zero\<close>, \<open>py_l_pos\<close>, \<open>py_l_mono\<close>), and all three modes apply it
  through the same \<open>log_data\<close>. The application to a charge column is element-wise
  where the first charge of the event is positive (\<open>np_vectorize_elementwise\<close>), but not
  in general: in an event whose first point has charge 0 the first result is the Python
  int 0, the vectorised call returns an integer array, and the logarithm of every other
  point of the event is truncated. For the two charges 0 and 50 the stored column is
  0 and 1, while \<^verbatim>\<open>_l(50)\<close> is \<open>log 10 50\<close>, which is not 1.
\<close>

theorem log_event_truncates:
  "log_event ([Point 0 0 0 0, Point 1 1 1 50], 0) = Inr ([Point 0 0 0 0, Point 1 1 1 1], 0)
   \<and> py_l 50 = Inr (PyFloat (log 10 50)) \<and> log 10 50 \<noteq> (1::real)"
  by (simp add: log_event_def np_vectorize_def py_l_def set_charges_def to_int64_def
      floor_log_50 log_50_neq_1)

section \<open>The ranking utility\<close>

lemma decoded_names:
  assumes "length preds \<le> 3"
  shows "map_err name_pred (enumerate 0 preds) = Inr (zip (take (length preds) CLASS_NAMES) preds)"
  unfolding map_err_Inr_iff
  using assms by (auto simp: name_pred_def CLASS_NAMES_def nth_enumerate_eq min_def)

lemma mset_sort_reverse: "mset (sort_reverse xs) = mset xs"
  by (simp add: sort_reverse_def)

lemma length_sort_reverse: "length (sort_reverse xs) = length xs"
  by (simp add: sort_reverse_def)

lemma sort_reverse_descending: "sorted_wrt (\<lambda>a b. snd b \<le> snd a) (sort_reverse xs)"
proof -
  have "sorted (map snd (sort_key snd (rev xs)))"
    by simp
  then have "sorted_wrt (\<lambda>a b. snd a \<le> snd b) (sort_key snd (rev xs))"
    by (simp add: sorted_map)
  then show ?thesis
    by (simp add: sort_reverse_def sorted_wrt_rev)
qed

text \<open>
  C8. For a vector of at most three probabilities (one per class name) and a requested
  count \<open>topn \<ge> 0\<close>, \<open>decode_predictions\<close> returns \<open>k = min topn (length preds)\<close> pairs of
  a class name and its probability, in descending order of probability, and they are
  the top \<open>k\<close>: together with some rest they make up all the (name, probability) pairs,
  and no pair of the rest has a higher probability than a returned one. In particular
  the vector 0.7, 0.2, 0.1 with \<open>topn = 2\<close> gives proton with 0.7, then carbon with 0.2.
\<close>

theorem decode_predictions_top:
  "(length preds \<le> 3 \<and> 0 \<le> topn \<longrightarrow>
     (\<exists>r rest. decode_predictions preds topn = Inr r
        \<and> length r = min (nat topn) (length preds)
        \<and> sorted_wrt (\<lambda>a b. snd b \<le> snd a) r
        \<and> mset (r @ rest) = mset (zip (take (length preds) CLASS_NAMES) preds)
        \<and> (\<forall>a\<in>set r. \<forall>b\<in>set rest. snd b \<le> snd a)))
   \<and> decode_predictions [0.7, 0.2, 0.1] 2 = Inr [(''proton'', 0.7), (''carbon'', 0.2)]"
proof (intro conjI impI)
  assume a: "length preds \<le> 3 \<and> 0 \<le> topn"
  define d where "d = zip (take (length preds) CLASS_NAMES) preds"
  define s where "s = sort_reverse d"
  define k where "k = min (nat topn) (length preds)"
  have len_d: "length d = length preds"
    using a by (simp add: d_def CLASS_NAMES_def)
  have len_s: "length s = length preds"
    by (simp add: s_def length_sort_reverse len_d)
  have "decode_predictions preds topn = Inr (py_slice_to s (min topn (int (length s))))"
    using a
    by (simp add: decode_predictions_def decoded_names d_def [symmetric] s_def [symmetric] Let_def)
  moreover have "py_slice_to s (min topn (int (length s))) = take k s"
    using a len_s by (auto simp: py_slice_to_def k_def min_def nat_le_iff)
  ultimately have dec: "decode_predictions preds topn = Inr (take k s)"
    by simp
  have srt: "sorted_wrt (\<lambda>a b. snd b \<le> snd a) (take k s @ drop k s)"
    by (simp add: s_def sort_reverse_descending)
  have "length (take k s) = k"
    by (simp add: len_s k_def)
  moreover have "sorted_wrt (\<lambda>a b. snd b \<le> snd a) (take k s)"
    using srt unfolding sorted_wrt_append by blast
  moreover have "mset (take k s @ drop k s) = mset d"
    by (simp add: s_def mset_sort_reverse)
  moreover have "\<forall>a\<in>set (take k s). \<forall>b\<in>set (drop k s). snd b \<le> snd a"
    using srt unfolding sorted_wrt_append by blast
  ultimately show "\<exists>r rest. decode_predictions preds topn = Inr r
        \<and> length r = min (nat topn) (length preds)
        \<and> sorted_wrt (\<lambda>a b. snd b \<le> snd a) r
        \<and> mset (r @ rest) = mset (zip (take (length preds) CLASS_NAMES) preds)
        \<and> (\<forall>a\<in>set r. \<forall>b\<in>set rest. snd b \<le> snd a)"
    using dec unfolding k_def d_def by blast
next
  show "decode_predictions [0.7, 0.2, 0.1] 2 = Inr [(''proton'', 0.7), (''carbon'', 0.2)]"
    by (simp add: decode_predictions_def name_pred_def CLASS_NAMES_def enumerate_eq_zip
        sort_reverse_def py_slice_to_def upt_rec)
qed

theorem decode_predictions_top_witness:
  "length [0.5, 0.1, 0.4 :: real] \<le> 3 \<and> (0::int) \<le> 2
   \<and> (\<exists>r rest. decode_predictions [0.5, 0.1, 0.4] 2 = Inr r
        \<and> length r = min (nat 2) (length [0.5, 0.1, 0.4 :: real])
        \<and> sorted_wrt (\<lambda>a b. snd b \<le> snd a) r
        \<and> mset (r @ rest) = mset (zip (take (length [0.5, 0.1, 0.4 :: real]) CLASS_NAMES) [0.5, 0.1, 0.4])
        \<and> (\<forall>a\<in>set r. \<forall>b\<in>set rest. snd b \<le> snd a))"
  using decode_predictions_top [of "[0.5, 0.1, 0.4]" 2] by simp

section \<open>Shuffle and split\<close>

lemma shuffle_loop_mset:
  "i < length x \<Longrightarrow> mset (fst (shuffle_loop i x g)) = mset x"
proof (induction i arbitrary: x g)
  case 0
  then show ?case by simp
next
  case (Suc i)
  define j where "j = g 0 mod (Suc i + 1)"
  have "j < Suc i + 1"
    unfolding j_def by (rule mod_less_divisor) simp
  with Suc.prems have j: "j < length x"
    by simp
  have sw: "mset (x[Suc i := x ! j, j := x ! Suc i]) = mset x"
    using mset_swap [of j x "Suc i"] j Suc.prems by simp
  have "i < length (x[Suc i := x ! j, j := x ! Suc i])"
    using Suc.prems by simp
  from Suc.IH [OF this] sw show ?case
    by (simp add: randbelow_def j_def Let_def)
qed

lemma mset_shuffle: "mset (fst (shuffle x g)) = mset x"
proof (cases x)
  case Nil
  then show ?thesis by (simp add: shuffle_def)
next
  case (Cons a as)
  then show ?thesis unfolding shuffle_def by (intro shuffle_loop_mset) simp
qed

lemma length_shuffle: "length (fst (shuffle x g)) = length x"
  using mset_shuffle [of x g] by (metis size_mset)

lemma partition_of_eq: "partition_of n = (4 * n) div 5"
proof -
  have "real n * 0.8 = real (4 * n) / real 5"
    by simp
  then have "\<lfloor>real n * 0.8\<rfloor> = int ((4 * n) div 5)"
    by (simp only: floor_divide_of_nat_eq)
  then show ?thesis
    by (simp add: partition_of_def)
qed

lemma partition_of_le: "partition_of n \<le> n"
  by (simp add: partition_of_eq)

text \<open>
  C3. Whatever the random draws, in the real labelled mode (two shuffles) and in the
  simulated mode (one shuffle) the train partition is the first \<open>\<lfloor>0.8 * N\<rfloor>\<close> events of
  the shuffled order, the test partition is the rest, so it has \<open>N - \<lfloor>0.8 * N\<rfloor>\<close> events,
  and train followed by test is a permutation of the input collection: the two have
  the same multiset of events.
\<close>

theorem split_80_20:
  "(\<exists>shuffled. mset shuffled = mset data
      \<and> shuffle_split_real data g =
          (take (nat \<lfloor>0.8 * real (length data)\<rfloor>) shuffled,
           drop (nat \<lfloor>0.8 * real (length data)\<rfloor>) shuffled))
   \<and> (\<exists>shuffled. mset shuffled = mset data
      \<and> shuffle_split_sim data g =
          (take (nat \<lfloor>0.8 * real (length data)\<rfloor>) shuffled,
           drop (nat \<lfloor>0.8 * real (length data)\<rfloor>) shuffled))
   \<and> length (fst (shuffle_split_real data g)) = nat \<lfloor>0.8 * real (length data)\<rfloor>
   \<and> length (snd (shuffle_split_real data g)) = length data - nat \<lfloor>0.8 * real (length data)\<rfloor>
   \<and> mset (fst (shuffle_split_real data g) @ snd (shuffle_split_real data g)) = mset data
   \<and> length (fst (shuffle_split_sim data g)) = nat \<lfloor>0.8 * real (length data)\<rfloor>
   \<and> length (snd (shuffle_split_sim data g)) = length data - nat \<lfloor>0.8 * real (length data)\<rfloor>
   \<and> mset (fst (shuffle_split_sim data g) @ snd (shuffle_split_sim data g)) = mset data"
proof -
  define p where "p = nat \<lfloor>0.8 * real (length data)\<rfloor>"
  have p: "p = partition_of (length data)"
    by (simp add: p_def partition_of_def mult.commute)
  have ple: "p \<le> length data"
    unfolding p by (rule partition_of_le)
  define s1 where "s1 = fst (shuffle data g)"
  define g1 where "g1 = snd (shuffle data g)"
  define s2 where "s2 = fst (shuffle s1 g1)"
  have m1: "mset s1 = mset data"
    by (simp add: s1_def mset_shuffle)
  have m2: "mset s2 = mset data"
    by (simp add: s2_def mset_shuffle m1)
  have l1: "length s1 = length data" and l2: "length s2 = length data"
    using m1 m2 by (metis size_mset)+
  have real: "shuffle_split_real data g = (take p s2, drop p s2)"
    by (simp add: shuffle_split_real_def split_data_def Let_def case_prod_unfold
        s1_def [symmetric] g1_def [symmetric] s2_def [symmetric] l2 p)
  have sim: "shuffle_split_sim data g = (take p s1, drop p s1)"
    by (simp add: shuffle_split_sim_def split_data_def Let_def case_prod_unfold
        s1_def [symmetric] l1 p)
  show ?thesis
    unfolding p_def [symmetric] real sim
    using m1 m2 l1 l2 ple by (auto simp flip: mset_append)
qed

section \<open>Normalisation\<close>

lemma ndarray_max_Max: "xs \<noteq> [] \<Longrightarrow> ndarray_max xs = Inr (Max (set xs))"
proof (cases xs)
  case Nil
  assume "xs \<noteq> []"
  with Nil show ?thesis by simp
next
  case (Cons a as)
  then show ?thesis by (simp only: ndarray_max.simps Max.set_eq_fold)
qed

lemma ndarray_max_error: "ndarray_max xs = Inl e \<Longrightarrow> e = ValueError \<and> xs = []"
  by (cases xs) simp_all

lemma max_charge_of_Max:
  assumes "train \<noteq> []" and "\<forall>ev\<in>set train. fst ev \<noteq> []"
  shows "max_charge_of train = Inr (Max (\<Union>ev\<in>set train. charge ` set (fst ev)))"
proof -
  define ms where "ms = map (\<lambda>ev. Max (charge ` set (fst ev))) train"
  define S where "S = (\<Union>ev\<in>set train. charge ` set (fst ev))"
  have "map_err (\<lambda>x. ndarray_max (map charge (fst x))) train = Inr ms"
    unfolding map_err_Inr_iff ms_def using assms(2) by (simp add: ndarray_max_Max)
  moreover have "ndarray_max ms = Inr (Max (set ms))"
    using assms(1) by (simp add: ndarray_max_Max ms_def)
  moreover have "Max S = Max (set ms)"
  proof (rule Max_eqI)
    show "finite S"
      by (simp add: S_def)
  next
    fix y
    assume "y \<in> S"
    then obtain ev where ev: "ev \<in> set train" "y \<in> charge ` set (fst ev)"
      by (auto simp: S_def)
    then have "y \<le> Max (charge ` set (fst ev))"
      by (intro Max_ge) auto
    also have "\<dots> \<le> Max (set ms)"
      using ev(1) by (intro Max_ge) (auto simp: ms_def)
    finally show "y \<le> Max (set ms)" .
  next
    have "Max (set ms) \<in> set ms"
      using assms(1) by (intro Max_in) (auto simp: ms_def)
    then obtain ev where ev: "ev \<in> set train" "Max (set ms) = Max (charge ` set (fst ev))"
      by (auto simp: ms_def)
    have "Max (charge ` set (fst ev)) \<in> charge ` set (fst ev)"
      using assms(2) ev(1) by (intro Max_in) auto
    with ev show "Max (set ms) \<in> S"
      unfolding S_def by auto
  qed
  ultimately show ?thesis
    by (simp add: max_charge_of_def S_def)
qed

lemma map_err_error:
  assumes "\<And>x e. f x = Inl e \<Longrightarrow> e = E" and "map_err f xs = Inl e"
  shows "e = E"
  using assms(2)
  by (induction xs) (auto split: sum.splits dest: assms(1))

lemma map_err_fails:
  assumes "x \<in> set xs" and "f x = Inl e"
  shows "\<exists>e'. map_err f xs = Inl e'"
proof (cases "map_err f xs")
  case (Inl a)
  then show ?thesis by simp
next
  case (Inr ys)
  from assms(1) obtain i where "i < length xs" "xs ! i = x"
    by (auto simp: in_set_conv_nth)
  with Inr assms(2) show ?thesis
    unfolding map_err_Inr_iff by auto
qed

lemma max_charge_of_error:
  assumes "max_charge_of train = Inl e"
  shows "e = ValueError"
proof -
  have "map_err (\<lambda>x. ndarray_max (map charge (fst x))) train = Inl e' \<Longrightarrow> e' = ValueError" for e'
    by (rule map_err_error [of "\<lambda>x. ndarray_max (map charge (fst x))"])
       (auto dest: ndarray_max_error)
  with assms show ?thesis
    by (auto simp: max_charge_of_def split: sum.splits dest: ndarray_max_error)
qed

lemma max_charge_of_empty_event:
  assumes "\<exists>ev\<in>set train. fst ev = []"
  shows "max_charge_of train = Inl ValueError"
proof -
  from assms obtain ev where ev: "ev \<in> set train" "fst ev = []"
    by blast
  have "ndarray_max (map charge (fst ev)) = Inl ValueError"
    using ev(2) by simp
  from map_err_fails [of ev train "\<lambda>x. ndarray_max (map charge (fst x))", OF ev(1) this]
  have "\<exists>e. max_charge_of train = Inl e"
    by (auto simp: max_charge_of_def)
  then show ?thesis
    using max_charge_of_error by blast
qed

text \<open>
  C2. When the scale can be computed (the train partition is not empty and none of its
  events is), \<open>max_charge\<close> is the greatest log-charge of the points of the train
  partition: the test partition is no argument of it, and it is the value written to the
  container. Every point of train and of test then carries its log-charge divided by
  that scale (\<open>np_true_divide\<close>, which is the quotient itself unless the scale is 0), and
  nothing is clamped: a test point with a log-charge above the scale gets a value above
  1. Labels, and the number and order of events, are unchanged.
\<close>

theorem normalize_scale:
  assumes "train \<noteq> []" and "\<forall>ev\<in>set train. fst ev \<noteq> []"
  shows "\<exists>train' test'.
           normalize train test =
             Inr (Max (\<Union>ev\<in>set train. charge ` set (fst ev)), train', test')
         \<and> length train' = length train \<and> length test' = length test
         \<and> (\<forall>i<length train. snd (train' ! i) = snd (train ! i)
               \<and> map charge (fst (train' ! i)) =
                  map (\<lambda>p. np_true_divide (charge p)
                         (Max (\<Union>ev\<in>set train. charge ` set (fst ev)))) (fst (train ! i)))
         \<and> (\<forall>i<length test. snd (test' ! i) = snd (test ! i)
               \<and> map charge (fst (test' ! i)) =
                  map (\<lambda>p. np_true_divide (charge p)
                         (Max (\<Union>ev\<in>set train. charge ` set (fst ev)))) (fst (test ! i)))
         \<and> (\<forall>c m. m \<noteq> 0 \<longrightarrow> np_true_divide c m = Finite (c / m))
         \<and> (\<forall>plot w projection h5.
               normalize_render_save plot w projection (train, test) = Inr h5 \<longrightarrow>
               h5_max_charge h5 = Some [Max (\<Union>ev\<in>set train. charge ` set (fst ev))])"
proof -
  define m where "m = Max (\<Union>ev\<in>set train. charge ` set (fst ev))"
  have n: "normalize train test = Inr (m, map (scale_event m) train, map (scale_event m) test)"
    using max_charge_of_Max [OF assms] by (simp add: normalize_def m_def)
  have "h5_max_charge h5 = Some [m]"
    if "normalize_render_save plot w projection (train, test) = Inr h5" for plot w projection h5
    using that n by (auto simp: normalize_render_save_def split: sum.splits)
  with n show ?thesis
    unfolding m_def [symmetric]
    by (simp add: scale_event_def comp_def np_true_divide_def)
qed

theorem normalize_scale_witness:
  "[([Point 0 0 0 1, Point 0 0 0 2], 0)] \<noteq> ([] :: real event list)
   \<and> list_all (\<lambda>ev. fst ev \<noteq> []) [([Point 0 0 0 1, Point 0 0 0 2], 0) :: real event]
   \<and> normalize [([Point 0 0 0 1, Point 0 0 0 2], 0)] [([Point 0 0 0 4], 1)] =
       Inr (2, [([Point 0 0 0 (Finite (1/2)), Point 0 0 0 (Finite 1)], 0)],
               [([Point 0 0 0 (Finite 2)], 1)])"
  using normalize_scale [of "[([Point 0 0 0 1, Point 0 0 0 2], 0)]" "[([Point 0 0 0 4], 1)]"]
  by (simp add: normalize_def max_charge_of_def scale_event_def np_true_divide_def)

section \<open>Events without points\<close>

lemma np_vectorize_error:
  assumes "np_vectorize py_l xs = Inl e"
  shows "e = ValueError"
proof -
  have "map_err py_l ys = Inl e' \<Longrightarrow> e' = ValueError" for ys e'
    by (rule map_err_error [of py_l]) (auto simp: py_l_def split: if_splits)
  with assms show ?thesis
    by (auto simp: np_vectorize_def py_l_def split: list.splits sum.splits if_splits)
qed

lemma log_event_error: "log_event ev = Inl e \<Longrightarrow> e = ValueError"
  by (auto simp: log_event_def split: sum.splits dest: np_vectorize_error)

lemma log_data_error:
  assumes "log_data data = Inl e"
  shows "e = ValueError"
proof (rule map_err_error [of log_event ValueError data e])
  show "log_event x = Inl e' \<Longrightarrow> e' = ValueError" for x e'
    by (rule log_event_error)
next
  show "map_err log_event data = Inl e"
    using assms by (simp add: log_data_def)
qed

lemma log_data_empty_event:
  assumes "\<exists>ev\<in>set data. fst ev = []"
  shows "log_data data = Inl ValueError"
proof -
  from assms obtain ev where ev: "ev \<in> set data" "fst ev = []"
    by blast
  have "log_event ev = Inl ValueError"
    using ev(2) by (simp add: log_event_def np_vectorize_def)
  from map_err_fails [of ev data log_event ValueError, OF ev(1) this]
  obtain e where "log_data data = Inl e"
    by (auto simp: log_data_def)
  with log_data_error show ?thesis
    by blast
qed

lemma normalize_empty_event:
  assumes "\<exists>ev\<in>set train. fst ev = []"
  shows "normalize train test = Inl ValueError"
  using max_charge_of_empty_event [OF assms] by (simp add: normalize_def)

lemma normalize_render_save_empty_event:
  assumes "\<exists>ev\<in>set train. fst ev = []"
  shows "normalize_render_save plot w projection (train, test) = Inl ValueError"
  using normalize_empty_event [OF assms] by (simp add: normalize_render_save_def)

text \<open>
  C10. The scale is computed from the maximum of each event's charge column, which does
  not exist for an event without points: with such an event in the train partition (in
  the unlabelled mode, in the collection) \<open>max_charge_of\<close> and \<open>normalize\<close> raise
  ValueError, and so does the rest of the pipeline, whatever the projection, before any
  event is rendered. Each of the three modes fails in this way when an ingested event
  has no points (there the vectorised logarithm already refuses the empty charge column,
  in whichever partition the event would land). The renderer itself accepts an event
  without points: it asks the backend for an empty scatter plot.
\<close>

theorem zero_point_event_fails:
  "((\<exists>ev\<in>set train. fst ev = []) \<longrightarrow>
      max_charge_of train = Inl ValueError
      \<and> normalize train test = Inl ValueError
      \<and> normalize_render_save plot w projection (train, test) = Inl ValueError)
   \<and> (map_err (labeled_run w) RUNS = Inr runs \<and> (\<exists>ev\<in>set (concat runs). fst ev = []) \<longrightarrow>
      real_labeled w projection = Inl ValueError)
   \<and> (map_err (unlabeled_run w) RUNS = Inr runs' \<and> (\<exists>ev\<in>set (concat runs'). fst ev = []) \<longrightarrow>
      real_unlabeled w projection = Inl ValueError)
   \<and> (h5_files w (prefix @ ''proton.h5'') = Some ps \<and> h5_files w (prefix @ ''carbon.h5'') = Some cs
       \<and> (\<exists>ev\<in>set (simulated_data w noise n ps cs). fst ev = []) \<longrightarrow>
      simulated w projection noise n prefix = Inl ValueError)
   \<and> render plot_real (backend w) (PStr ''xy'') ([], l) =
        Inr (delete_alpha (backend w \<lparr>scatter_x = [], scatter_y = [], scatter_c = [],
                                     xlim = Some (-275, 275), ylim = (-275, 275)\<rparr>))
   \<and> render plot_real (backend w) (PStr ''zy'') ([], l) =
        Inr (delete_alpha (backend w \<lparr>scatter_x = [], scatter_y = [], scatter_c = [],
                                     xlim = Some (0, 1250), ylim = (-275, 275)\<rparr>))"
proof (intro conjI impI)
  assume "\<exists>ev\<in>set train. fst ev = []"
  then show "max_charge_of train = Inl ValueError"
    and "normalize train test = Inl ValueError"
    and "normalize_render_save plot w projection (train, test) = Inl ValueError"
    by (rule max_charge_of_empty_event normalize_empty_event normalize_render_save_empty_event)+
next
  assume "map_err (labeled_run w) RUNS = Inr runs \<and> (\<exists>ev\<in>set (concat runs). fst ev = [])"
  then show "real_labeled w projection = Inl ValueError"
    using log_data_empty_event [of "concat runs"] by (simp add: real_labeled_def)
next
  assume "map_err (unlabeled_run w) RUNS = Inr runs' \<and> (\<exists>ev\<in>set (concat runs'). fst ev = [])"
  then show "real_unlabeled w projection = Inl ValueError"
    using log_data_empty_event [of "concat runs'"] by (simp add: real_unlabeled_def)
next
  assume "h5_files w (prefix @ ''proton.h5'') = Some ps \<and> h5_files w (prefix @ ''carbon.h5'') = Some cs
       \<and> (\<exists>ev\<in>set (simulated_data w noise n ps cs). fst ev = [])"
  then show "simulated w projection noise n prefix = Inl ValueError"
    using log_data_empty_event [of "simulated_data w noise n ps cs"] by (simp add: simulated_def)
qed (simp_all add: render_def plot_real_def)

theorem zero_point_event_fails_witness:
  "(\<exists>ev\<in>set [([], 0) :: real event]. fst ev = [])
   \<and> max_charge_of [([], 0)] = Inl ValueError
   \<and> normalize [([], 0)] [] = Inl ValueError
   \<and> normalize_render_save plot_real empty_event_world (PStr ''xy'') ([([], 0)], []) = Inl ValueError
   \<and> map_err (labeled_run empty_event_world) RUNS = Inr [[([], 0)], [([], 0)]]
   \<and> real_labeled empty_event_world (PStr ''xy'') = Inl ValueError
   \<and> map_err (unlabeled_run empty_event_world) RUNS = Inr [[([], - 1)], [([], - 1)]]
   \<and> real_unlabeled empty_event_world (PStr ''xy'') = Inl ValueError
   \<and> h5_files empty_event_world ('''' @ ''proton.h5'') = Some [(7, [])]
   \<and> h5_files empty_event_world ('''' @ ''carbon.h5'') = Some [(7, [])]
   \<and> simulated_data empty_event_world False 0 [(7, [])] [(7, [])] = [([], 0), ([], 1)]
   \<and> simulated empty_event_world (PStr ''xy'') False 0 '''' = Inl ValueError"
  using zero_point_event_fails [where train = "[([], 0)]" and test = "[]" and plot = plot_real
        and w = empty_event_world and projection = "PStr ''xy''"
        and runs = "[[([], 0)], [([], 0)]]" and runs' = "[[([], - 1)], [([], - 1)]]"
        and ps = "[(7, [])]" and cs = "[(7, [])]" and noise = False and n = 0 and prefix = "''''"]
  by (simp add: empty_event_world_def RUNS_def labeled_run_def unlabeled_run_def fetch_events_def
      label_indices_def simulated_data_def sim_events_def junk_events_def enumerate_eq_zip)

section \<open>Projection selection\<close>

lemma plot_real_zy:
  "plot_real (PStr ''zy'') e =
     Inr \<lparr>scatter_x = map zc e, scatter_y = map yc e, scatter_c = map charge e,
          xlim = Some (0, 1250), ylim = (-275, 275)\<rparr>"
  by (simp add: plot_real_def)

lemma plot_real_xy:
  "plot_real (PStr ''xy'') e =
     Inr \<lparr>scatter_x = map xc e, scatter_y = map yc e, scatter_c = map charge e,
          xlim = Some (-275, 275), ylim = (-275, 275)\<rparr>"
  by (simp add: plot_real_def)

lemma plot_sim_1:
  "plot_sim (PInt 1) e =
     Inr \<lparr>scatter_x = map zc e, scatter_y = map yc e, scatter_c = map charge e,
          xlim = Some (0, 1250), ylim = (-275, 275)\<rparr>"
  by (simp add: plot_sim_def)

lemma plot_sim_0:
  "plot_sim (PInt 0) e =
     Inr \<lparr>scatter_x = map xc e, scatter_y = map yc e, scatter_c = map charge e,
          xlim = Some (-275, 275), ylim = (-275, 275)\<rparr>"
  by (simp add: plot_sim_def)

lemma plot_sim_string: "plot_sim (PStr s) e = Inl ValueError"
  by (simp add: plot_sim_def)

lemma max_charge_of_Nil: "max_charge_of [] = Inl ValueError"
  by (simp add: max_charge_of_def)

lemma normalize_render_save_sim_string:
  "isl (normalize_render_save plot_sim w (PStr s) parts)"
proof (cases "normalize (fst parts) (snd parts)")
  case (Inl e)
  then show ?thesis by (simp add: normalize_render_save_def)
next
  case (Inr r)
  obtain m train test where r: "r = (m, train, test)"
    by (cases r) auto
  from Inr r have "train = map (scale_event m) (fst parts)" "max_charge_of (fst parts) = Inr m"
    by (auto simp: normalize_def split: sum.splits)
  then obtain ev evs where "train = ev # evs"
    using max_charge_of_Nil by (cases "fst parts") auto
  then have "map_err (render plot_sim (backend w) (PStr s)) train = Inl ValueError"
    by (simp add: render_def plot_sim_string)
  with Inr r show ?thesis
    by (simp add: normalize_render_save_def)
qed

lemma simulated_string_fails: "isl (simulated w (PStr s) noise num_events prefix)"
  using normalize_render_save_sim_string
  by (auto simp: simulated_def split: option.splits sum.splits)

lemma shuffle_three: "shuffle [a, b, c] (\<lambda>k. 0) = ([b, c, a], (\<lambda>k. 0))"
  by (simp add: shuffle_def randbelow_def numeral_2_eq_2)

lemma partition_of_three: "partition_of (Suc (Suc (Suc 0))) = 2"
  by (simp add: partition_of_eq)

lemma main_sim_world:
  "p = ''zy'' \<or> p = ''xy'' \<Longrightarrow> main sim_world ''sim'' p '''' True False 0 = Inl ValueError"
  by (auto simp: main_def simulated_def sim_world_def simulated_data_def sim_events_def
      junk_events_def enumerate_eq_zip log_data_def log_event_def np_vectorize_def py_l_def
      to_float_def set_charges_def shuffle_split_sim_def shuffle_three split_data_def
      partition_of_three Let_def normalize_render_save_def normalize_def max_charge_of_def
      scale_event_def np_true_divide_def render_def plot_sim_def upt_rec)

text \<open>
  C1. In the two real modes the selector \<^verbatim>\<open>'zy'\<close> takes the z column as horizontal and
  the y column as vertical coordinate, with the horizontal range 0 to 1250, and \<^verbatim>\<open>'xy'\<close>
  takes x and y with the horizontal range -275 to 275; the vertical range is -275 to 275
  in both. The simulated mode makes the same selection for the integers 1 and 0 only:
  it compares the selector with these integers, while the command line passes the
  strings. With either string it refuses every event with ValueError, so that no
  simulated run of the command produces a container, whatever its input; the run over
  two proton events and one carbon event of \<open>sim_world\<close> ends in ValueError for \<^verbatim>\<open>'zy'\<close>
  and for \<^verbatim>\<open>'xy'\<close>.
\<close>

theorem sim_rejects_cli_projection:
  "main sim_world ''sim'' ''zy'' '''' True False 0 = Inl ValueError
   \<and> main sim_world ''sim'' ''xy'' '''' True False 0 = Inl ValueError
   \<and> isl (main w ''sim'' projection prefix labeled noise num_events)
   \<and> plot_sim (PStr s) e = Inl ValueError
   \<and> plot_real (PStr ''zy'') e =
       Inr \<lparr>scatter_x = map zc e, scatter_y = map yc e, scatter_c = map charge e,
            xlim = Some (0, 1250), ylim = (-275, 275)\<rparr>
   \<and> plot_real (PStr ''xy'') e =
       Inr \<lparr>scatter_x = map xc e, scatter_y = map yc e, scatter_c = map charge e,
            xlim = Some (-275, 275), ylim = (-275, 275)\<rparr>
   \<and> plot_sim (PInt 1) e =
       Inr \<lparr>scatter_x = map zc e, scatter_y = map yc e, scatter_c = map charge e,
            xlim = Some (0, 1250), ylim = (-275, 275)\<rparr>
   \<and> plot_sim (PInt 0) e =
       Inr \<lparr>scatter_x = map xc e, scatter_y = map yc e, scatter_c = map charge e,
            xlim = Some (-275, 275), ylim = (-275, 275)\<rparr>"
proof -
  have "isl (main w ''sim'' projection prefix labeled noise num_events)"
    using simulated_string_fails [of w projection noise num_events prefix]
    by (simp add: main_def)
  then show ?thesis
    by (simp add: main_sim_world plot_sim_string plot_real_zy plot_real_xy plot_sim_1 plot_sim_0)
qed

text \<open>
  C9. A selector other than \<^verbatim>\<open>'xy'\<close> and \<^verbatim>\<open>'zy'\<close> never reaches a pipeline: the command
  rejects it with a usage error whatever the mode, the options and the data, also for
  data on which the logarithm or the normalisation would raise (the files need not even
  exist), so before any event is transformed, shuffled, split, normalised or rendered.
  The renderers raise ValueError for any selector they do not know, whatever the point
  cloud.
\<close>

theorem invalid_projection_usage_error:
  "(projection \<noteq> ''xy'' \<and> projection \<noteq> ''zy'' \<longrightarrow>
      main w type projection prefix labeled noise num_events = Inl UsageError)
   \<and> (p \<noteq> PStr ''xy'' \<and> p \<noteq> PStr ''zy'' \<longrightarrow> plot_real p e = Inl ValueError)
   \<and> (p \<noteq> PInt 0 \<and> p \<noteq> PInt 1 \<longrightarrow> plot_sim p e = Inl ValueError)"
  by (simp add: main_def plot_real_def plot_sim_def)

theorem invalid_projection_usage_error_witness:
  "''yz'' \<noteq> ''xy'' \<and> ''yz'' \<noteq> ''zy''
   \<and> main negative_charge_world ''real'' ''yz'' '''' True True 0 = Inl UsageError
   \<and> main negative_charge_world ''real'' ''zy'' '''' True True 0 = Inl ValueError
   \<and> PStr ''yz'' \<noteq> PStr ''xy'' \<and> PStr ''yz'' \<noteq> PStr ''zy''
   \<and> plot_real (PStr ''yz'') [Point 1 2 3 (Finite 1)] = Inl ValueError
   \<and> PStr ''yz'' \<noteq> PInt 0 \<and> PStr ''yz'' \<noteq> PInt 1
   \<and> plot_sim (PStr ''yz'') [Point 1 2 3 (Finite 1)] = Inl ValueError"
  using invalid_projection_usage_error [where projection = "''yz''" and w = negative_charge_world
      and type = "''real''" and prefix = "''''" and labeled = True and noise = True
      and num_events = 0 and p = "PStr ''yz''" and e = "[Point 1 2 3 (Finite 1)]"]
  by (simp add: main_def real_labeled_def negative_charge_world_def RUNS_def labeled_run_def
      fetch_events_def label_indices_def log_data_def log_event_def np_vectorize_def py_l_def)

section \<open>A complete run\<close>

text \<open>
  The real labelled pipeline on \<open>labeled_world\<close> with the selector \<^verbatim>\<open>'zy'\<close>: three
  events, two of them in the train partition, the scale 1 (the decimal logarithm of 10),
  and the images of the backend without their fourth channel.
\<close>

lemma real_labeled_run:
  "main labeled_world ''real'' ''zy'' '''' True True 0 =
     Inr \<lparr>h5_images = None,
          h5_train_features = Some [[[[1, 2, 3]]], [[[1, 2, 3]]]],
          h5_train_targets = Some [2, 0],
          h5_test_features = Some [[[[1, 2, 3]]]],
          h5_test_targets = Some [1],
          h5_max_charge = Some [1]\<rparr>"
  by (simp add: main_def real_labeled_def labeled_world_def RUNS_def labeled_run_def
      fetch_events_def label_indices_def log_data_def log_event_def np_vectorize_def py_l_def
      to_float_def set_charges_def shuffle_split_real_def shuffle_three split_data_def
      partition_of_eq Let_def normalize_render_save_def normalize_def max_charge_of_def
      scale_event_def np_true_divide_def render_def plot_real_def delete_alpha_def to_uint8_def)

section \<open>Junk events of the simulated mode\<close>

lemma length_sim_events: "length (sim_events w noise k events label) = length events"
  by (simp add: sim_events_def)

lemma length_junk_events: "length (junk_events w noise k n) = nat n"
  by (simp add: junk_events_def)

lemma junk_events_appended:
  "length (simulated_data w noise n ps cs) = length ps + length cs + nat n
   \<and> take (length ps + length cs) (simulated_data w noise n ps cs) =
       sim_events w noise 0 ps 0 @ sim_events w noise (length ps) cs 1
   \<and> map snd (drop (length ps + length cs) (simulated_data w noise n ps cs)) = replicate (nat n) 2"
  by (simp add: simulated_data_def length_sim_events length_junk_events)
     (simp add: junk_events_def comp_def map_replicate_const)

text \<open>
  C5. The simulated mode appends \<open>num_events\<close> junk events after the proton and carbon
  events, each labelled 2, and none for \<open>num_events = 0\<close>, where the collection has as many
  events as the two files together: so far the code does what is claimed. The
  placeholder of a junk event is not zeroed, though. \<^verbatim>\<open>np.empty([1, 4])\<close> allocates
  its row without initialising it, so the single point carries whatever the memory
  held: in \<open>sim_world\<close>, where the memory holds 1, 2, 3, 4, the junk event of a run without
  noise is that row and not the all-zero point, and only where the memory happens to hold
  zeros (\<open>empty_event_world\<close>) is it the all-zero point.
\<close>

theorem junk_placeholder_uninitialised:
  "simulated_data sim_world False 1 [] [] = [([Point 1 2 3 4], 2)]
   \<and> [Point 1 2 3 4] \<noteq> [Point 0 0 0 (0::real)]
   \<and> simulated_data empty_event_world False 1 [] [] = [([Point 0 0 0 0], 2)]
   \<and> length (simulated_data w noise n ps cs) = length ps + length cs + nat n
   \<and> map snd (drop (length ps + length cs) (simulated_data w noise n ps cs)) = replicate (nat n) 2
   \<and> length (simulated_data w noise 0 ps cs) = length ps + length cs"
proof -
  have "simulated_data sim_world False 1 [] [] = [([Point 1 2 3 4], 2)]"
    by (simp add: simulated_data_def sim_events_def junk_events_def sim_world_def enumerate_eq_zip)
  moreover have "simulated_data empty_event_world False 1 [] [] = [([Point 0 0 0 0], 2)]"
    by (simp add: simulated_data_def sim_events_def junk_events_def empty_event_world_def
        enumerate_eq_zip)
  moreover have "length (simulated_data w noise 0 ps cs) = length ps + length cs"
    using junk_events_appended [of w noise 0 ps cs] by simp
  ultimately show ?thesis
    using junk_events_appended [of w noise n ps cs] by simp
qed

section \<open>The loader's label options\<close>

lemma binary_loop_take:
  "k \<le> length ts \<Longrightarrow>
     fold (\<lambda>i ts. if ts ! i \<noteq> 0 then ts[i := 1] else ts) [0..<k] (ts :: nat list) =
       map (\<lambda>t. if t = 0 then 0 else 1) (take k ts) @ drop k ts"
proof (induction k)
  case 0
  then show ?case by simp
next
  case (Suc k)
  then have k: "k < length ts" by simp
  let ?m = "map (\<lambda>t. if t = 0 then 0 else (1::nat)) (take k ts)"
  have d: "drop k ts = ts ! k # drop (Suc k) ts"
    using k by (simp add: Cons_nth_drop_Suc)
  have len: "length ?m = k"
    using k by simp
  have nth: "(?m @ drop k ts) ! k = ts ! k"
    using len by (metis d nth_append_length)
  have upd: "(?m @ drop k ts)[k := 1] = ?m @ 1 # drop (Suc k) ts"
    using len by (metis d list_update_length)
  show ?case
    using Suc.IH k nth upd d
    by (simp add: take_Suc_conv_app_nth)
qed

lemma binary_loop_map: "binary_loop ts = map (\<lambda>t. if t = 0 then 0 else 1) ts"
  using binary_loop_take [of "length ts" ts] by (simp add: binary_loop_def)

lemma to_categorical_binary:
  "to_categorical (map (\<lambda>t. if t = 0 then 0 else 1) ts) 2 =
     Inr (map (\<lambda>t. if t = 0 then [1, 0] else [0, 1]) ts)"
  by (auto simp: to_categorical_def list_ex_iff numeral_2_eq_2)

text \<open>
  C6. For a labelled container (no \<^verbatim>\<open>images\<close> field, the five fields of the labelled
  schema present), loading with \<open>binary = True\<close> returns train and test targets in which
  every label 0 is 0 and every other label is 1, so all labels lie in \<open>{0, 1}\<close>; with
  \<open>categorical\<close> as well the one-hot vectors have the two columns of that label space,
  whatever the number of classes in the file. (Flattening, when asked for, must
  succeed: \<open>ftr\<close> and \<open>fte\<close> are its results.)
\<close>

theorem binary_collapses_labels:
  assumes "h5_images h5 = None"
    and "h5_train_features h5 = Some trf" and "h5_train_targets h5 = Some trt"
    and "h5_test_features h5 = Some tef" and "h5_test_targets h5 = Some tet"
    and "h5_max_charge h5 = Some (mc # mcs)"
    and "flatten \<longrightarrow> reshape_rows trf = Inr ftr \<and> reshape_rows tef = Inr fte"
  shows "load_image_h5 h5 False flatten max_charge True =
           Inr ((if max_charge then (\<lambda>a b. TrainTestMax a b mc) else TrainTest)
                  (if flatten then Flattened ftr else Images trf,
                   Labels (map (\<lambda>t. if t = 0 then 0 else 1) trt))
                  (if flatten then Flattened fte else Images tef,
                   Labels (map (\<lambda>t. if t = 0 then 0 else 1) tet)))
       \<and> load_image_h5 h5 True flatten max_charge True =
           Inr ((if max_charge then (\<lambda>a b. TrainTestMax a b mc) else TrainTest)
                  (if flatten then Flattened ftr else Images trf,
                   OneHot (map (\<lambda>t. if t = 0 then [1, 0] else [0, 1]) trt))
                  (if flatten then Flattened fte else Images tef,
                   OneHot (map (\<lambda>t. if t = 0 then [1, 0] else [0, 1]) tet)))
       \<and> set (map (\<lambda>t. if t = 0 then 0 else 1) trt) \<subseteq> {0, 1 :: nat}
       \<and> set (map (\<lambda>t. if t = 0 then 0 else 1) tet) \<subseteq> {0, 1 :: nat}"
  using assms
  by (auto simp: load_image_h5_def binary_loop_map to_categorical_binary)

theorem binary_collapses_labels_witness:
  "h5_images three_class_h5 = None
   \<and> h5_train_targets three_class_h5 = Some [0, 2, 1, 2]
   \<and> h5_test_targets three_class_h5 = Some [1, 0]
   \<and> load_image_h5 three_class_h5 False False False True =
        Inr (TrainTest (Images [[[[1, 2, 3]]], [[[4, 5, 6]]], [[[7, 8, 9]]], [[[1, 1, 1]]]],
                        Labels [0, 1, 1, 1])
                       (Images [[[[0, 0, 0]]], [[[9, 9, 9]]]], Labels [1, 0]))
   \<and> load_image_h5 three_class_h5 True False False True =
        Inr (TrainTest (Images [[[[1, 2, 3]]], [[[4, 5, 6]]], [[[7, 8, 9]]], [[[1, 1, 1]]]],
                        OneHot [[1, 0], [0, 1], [0, 1], [0, 1]])
                       (Images [[[[0, 0, 0]]], [[[9, 9, 9]]]], OneHot [[0, 1], [1, 0]]))"
  using binary_collapses_labels [of three_class_h5
      "[[[[1, 2, 3]]], [[[4, 5, 6]]], [[[7, 8, 9]]], [[[1, 1, 1]]]]" "[0, 2, 1, 2]"
      "[[[[0, 0, 0]]], [[[9, 9, 9]]]]" "[1, 0]" "3.5" "[]" False "[]" "[]" False]
  by (simp add: three_class_h5_def)

lemma one_hot_row:
  "i < n \<Longrightarrow> (replicate n (0::int))[i := 1] = map (\<lambda>j. if j = i then 1 else 0) [0..<n]"
  by (rule nth_equalityI) (auto simp: nth_list_update)

lemma to_categorical_in_range:
  assumes "0 < n" and "\<forall>i\<in>set y. i < n"
  shows "to_categorical y n = Inr (map (\<lambda>i. map (\<lambda>j. if j = i then 1 else 0) [0..<n]) y)"
  using assms by (auto simp: to_categorical_def list_ex_iff one_hot_row)

lemma to_categorical_out_of_range:
  assumes "0 < n" and "\<exists>i\<in>set y. n \<le> i"
  shows "to_categorical y n = Inl IndexError"
  using assms by (auto simp: to_categorical_def list_ex_iff)

lemma to_categorical_no_labels: "to_categorical [] 0 = Inl ValueError"
  by (simp add: to_categorical_def)

text \<open>
  C7, as amended. For a labelled container with at least one train label, loaded with
  \<open>categorical = True\<close> and \<open>binary = False\<close>, let \<open>n\<close> be the number of distinct train
  labels. If every train and test label is smaller than \<open>n\<close>, each label \<open>i\<close> of the
  train and test targets becomes the vector of length \<open>n\<close> with 1 at index \<open>i\<close> and 0
  elsewhere. If some train or test label is not smaller than \<open>n\<close>, the loader raises
  IndexError. Without any train label it raises ValueError. With \<open>binary = True\<close> the
  vectors have length 2: 1 at index 0 for the label 0, and at index 1 for every other
  label. (Flattening, when asked for, must succeed: \<open>ftr\<close> and \<open>fte\<close> are its results.)
\<close>

theorem categorical_one_hot:
  assumes "h5_images h5 = None"
    and "h5_train_features h5 = Some trf" and "h5_train_targets h5 = Some trt"
    and "h5_test_features h5 = Some tef" and "h5_test_targets h5 = Some tet"
    and "h5_max_charge h5 = Some (mc # mcs)"
    and "flatten \<longrightarrow> reshape_rows trf = Inr ftr \<and> reshape_rows tef = Inr fte"
  shows "(trt \<noteq> [] \<and> (\<forall>i\<in>set trt \<union> set tet. i < card (set trt)) \<longrightarrow>
            load_image_h5 h5 True flatten max_charge False =
              Inr ((if max_charge then (\<lambda>a b. TrainTestMax a b mc) else TrainTest)
                  (if flatten then Flattened ftr else Images trf,
                   OneHot (map (\<lambda>i. map (\<lambda>j. if j = i then 1 else 0) [0..<card (set trt)]) trt))
                  (if flatten then Flattened fte else Images tef,
                   OneHot (map (\<lambda>i. map (\<lambda>j. if j = i then 1 else 0) [0..<card (set trt)]) tet))))
       \<and> (trt \<noteq> [] \<and> (\<exists>i\<in>set trt \<union> set tet. card (set trt) \<le> i) \<longrightarrow>
            load_image_h5 h5 True flatten max_charge False = Inl IndexError)
       \<and> (trt = [] \<longrightarrow> load_image_h5 h5 True flatten max_charge False = Inl ValueError)
       \<and> load_image_h5 h5 True flatten max_charge True =
           Inr ((if max_charge then (\<lambda>a b. TrainTestMax a b mc) else TrainTest)
                  (if flatten then Flattened ftr else Images trf,
                   OneHot (map (\<lambda>t. if t = 0 then [1, 0] else [0, 1]) trt))
                  (if flatten then Flattened fte else Images tef,
                   OneHot (map (\<lambda>t. if t = 0 then [1, 0] else [0, 1]) tet)))"
proof (intro conjI impI)
  assume a: "trt \<noteq> [] \<and> (\<forall>i\<in>set trt \<union> set tet. i < card (set trt))"
  have n: "length (remdups trt) = card (set trt)"
    by (simp add: length_remdups_card_conv)
  have pos: "0 < card (set trt)"
    using a by (simp add: card_gt_0_iff)
  have "to_categorical trt (card (set trt)) =
          Inr (map (\<lambda>i. map (\<lambda>j. if j = i then 1 else 0) [0..<card (set trt)]) trt)"
    and "to_categorical tet (card (set trt)) =
          Inr (map (\<lambda>i. map (\<lambda>j. if j = i then 1 else 0) [0..<card (set trt)]) tet)"
    using a pos by (simp_all add: to_categorical_in_range)
  then show "load_image_h5 h5 True flatten max_charge False =
              Inr ((if max_charge then (\<lambda>a b. TrainTestMax a b mc) else TrainTest)
                  (if flatten then Flattened ftr else Images trf,
                   OneHot (map (\<lambda>i. map (\<lambda>j. if j = i then 1 else 0) [0..<card (set trt)]) trt))
                  (if flatten then Flattened fte else Images tef,
                   OneHot (map (\<lambda>i. map (\<lambda>j. if j = i then 1 else 0) [0..<card (set trt)]) tet)))"
    using assms by (auto simp: load_image_h5_def n Let_def)
next
  assume a: "trt \<noteq> [] \<and> (\<exists>i\<in>set trt \<union> set tet. card (set trt) \<le> i)"
  have n: "length (remdups trt) = card (set trt)"
    by (simp add: length_remdups_card_conv)
  have pos: "0 < card (set trt)"
    using a by (simp add: card_gt_0_iff)
  show "load_image_h5 h5 True flatten max_charge False = Inl IndexError"
  proof (cases "\<exists>i\<in>set trt. card (set trt) \<le> i")
    case True
    from to_categorical_out_of_range [OF pos this] show ?thesis
      using assms(1-6) by (simp add: load_image_h5_def n Let_def)
  next
    case False
    then have "\<forall>i\<in>set trt. i < card (set trt)"
      by auto
    from to_categorical_in_range [OF pos this]
    obtain hot where hot: "to_categorical trt (card (set trt)) = Inr hot"
      by blast
    from False a have "\<exists>i\<in>set tet. card (set trt) \<le> i"
      by auto
    from to_categorical_out_of_range [OF pos this] hot show ?thesis
      using assms(1-6) by (simp add: load_image_h5_def n Let_def)
  qed
next
  assume "trt = []"
  then show "load_image_h5 h5 True flatten max_charge False = Inl ValueError"
    using assms(1-6) by (simp add: load_image_h5_def Let_def to_categorical_no_labels)
next
  show "load_image_h5 h5 True flatten max_charge True =
           Inr ((if max_charge then (\<lambda>a b. TrainTestMax a b mc) else TrainTest)
                  (if flatten then Flattened ftr else Images trf,
                   OneHot (map (\<lambda>t. if t = 0 then [1, 0] else [0, 1]) trt))
                  (if flatten then Flattened fte else Images tef,
                   OneHot (map (\<lambda>t. if t = 0 then [1, 0] else [0, 1]) tet)))"
    using assms by (auto simp: load_image_h5_def binary_loop_map to_categorical_binary)
qed

theorem categorical_one_hot_witness:
  "h5_images three_class_h5 = None
   \<and> h5_train_targets three_class_h5 = Some [0, 2, 1, 2]
   \<and> h5_test_targets three_class_h5 = Some [1, 0]
   \<and> card (set [0, 2, 1, 2 :: nat]) = 3
   \<and> list_all (\<lambda>i. i < 3) ([0, 2, 1, 2] @ [1, 0 :: nat])
   \<and> load_image_h5 three_class_h5 True False True False =
        Inr (TrainTestMax (Images [[[[1, 2, 3]]], [[[4, 5, 6]]], [[[7, 8, 9]]], [[[1, 1, 1]]]],
                           OneHot [[1, 0, 0], [0, 0, 1], [0, 1, 0], [0, 0, 1]])
                          (Images [[[[0, 0, 0]]], [[[9, 9, 9]]]], OneHot [[0, 1, 0], [1, 0, 0]])
                          3.5)
   \<and> load_image_h5 three_class_h5 True False True True =
        Inr (TrainTestMax (Images [[[[1, 2, 3]]], [[[4, 5, 6]]], [[[7, 8, 9]]], [[[1, 1, 1]]]],
                           OneHot [[1, 0], [0, 1], [0, 1], [0, 1]])
                          (Images [[[[0, 0, 0]]], [[[9, 9, 9]]]], OneHot [[0, 1], [1, 0]])
                          3.5)
   \<and> h5_images gap_h5 = None
   \<and> h5_train_targets gap_h5 = Some [0, 2]
   \<and> h5_test_targets gap_h5 = Some [0]
   \<and> card (set [0, 2 :: nat]) = 2
   \<and> list_ex (\<lambda>i. 2 \<le> i) ([0, 2] @ [0 :: nat])
   \<and> load_image_h5 gap_h5 True False True False = Inl IndexError
   \<and> h5_images no_train_h5 = None
   \<and> h5_train_targets no_train_h5 = Some []
   \<and> load_image_h5 no_train_h5 True False True False = Inl ValueError"
  using categorical_one_hot [of three_class_h5
      "[[[[1, 2, 3]]], [[[4, 5, 6]]], [[[7, 8, 9]]], [[[1, 1, 1]]]]" "[0, 2, 1, 2]"
      "[[[[0, 0, 0]]], [[[9, 9, 9]]]]" "[1, 0]" "3.5" "[]" False "[]" "[]" True]
    categorical_one_hot [of gap_h5 "[[[[1, 2, 3]]], [[[4, 5, 6]]]]" "[0, 2]"
      "[[[[0, 0, 0]]]]" "[0]" "3.5" "[]" False "[]" "[]" True]
    categorical_one_hot [of no_train_h5 "[]" "[]" "[[[[0, 0, 0]]]]" "[0]" "3.5" "[]" False
      "[]" "[]" True]
  by (simp add: three_class_h5_def gap_h5_def no_train_h5_def upt_rec card_insert_if)

theorem categorical_counterexample:
  "load_image_h5 gap_h5 True False False False = Inl IndexError
   \<and> load_image_h5 three_class_h5 True False False True =
        Inr (TrainTest (Images [[[[1, 2, 3]]], [[[4, 5, 6]]], [[[7, 8, 9]]], [[[1, 1, 1]]]],
                        OneHot [[1, 0], [0, 1], [0, 1], [0, 1]])
                       (Images [[[[0, 0, 0]]], [[[9, 9, 9]]]], OneHot [[0, 1], [1, 0]]))
   \<and> length (remdups [0, 2, 1, 2 :: nat]) = 3"
  by (simp add: load_image_h5_def gap_h5_def three_class_h5_def to_categorical_def
      binary_loop_map numeral_2_eq_2)

end
